theory Spec2Isabelle
  imports Complex_Main
begin

section \<open>Values decoded from JSON\<close>

text \<open>
  The handlers of \<^verbatim>\<open>app.py\<close> work on the Python values that a JSON decoder produces and
  that \<^verbatim>\<open>jsonify\<close> serialises again: \<^verbatim>\<open>None\<close>, booleans, integers, floats, strings,
  lists and dictionaries. A float is a finite rational, a NaN or an infinity (Python's
  decoder accepts all three); the only thing the code asks of a float is whether it is zero.
  A dictionary is an association list in insertion order, read with \<open>map_of\<close>.
\<close>

datatype pyfloat = Finite rat | NaN | Infinity bool

datatype json =
    JNull
  | JBool bool
  | JInt int
  | JFloat pyfloat
  | JStr string
  | JArr "json list"
  | JObj "(string \<times> json) list"

text \<open>Python's truth value of a decoded value, as \<^verbatim>\<open>not x\<close> and \<^verbatim>\<open>x or y\<close> test it.\<close>

fun truthy :: "json \<Rightarrow> bool" where
  "truthy JNull = False"
| "truthy (JBool b) = b"
| "truthy (JInt i) = (i \<noteq> 0)"
| "truthy (JFloat f) = (f \<noteq> Finite 0)"
| "truthy (JStr s) = (s \<noteq> [])"
| "truthy (JArr xs) = (xs \<noteq> [])"
| "truthy (JObj kvs) = (kvs \<noteq> [])"

text \<open>Truth value of an optional string (\<^verbatim>\<open>os.getenv\<close>, \<^verbatim>\<open>request.form.get\<close>):
  \<^verbatim>\<open>None\<close> and the empty string are false.\<close>

fun str_truthy :: "string option \<Rightarrow> bool" where
  "str_truthy None = False"
| "str_truthy (Some s) = (s \<noteq> [])"

text \<open>Exceptions that the handlers do not catch: they leave the handler as a fault.\<close>

datatype exc = AttributeError | OSError string

text \<open>
  \<^verbatim>\<open>d.get(k)\<close> and \<^verbatim>\<open>d.get(k, default)\<close>. Only a dictionary has the method; on any other
  decoded value the attribute lookup raises \<^verbatim>\<open>AttributeError\<close>.
\<close>

fun dict_get_default :: "json \<Rightarrow> string \<Rightarrow> json \<Rightarrow> exc + json" where
  "dict_get_default (JObj kvs) k d = Inr (case map_of kvs k of None \<Rightarrow> d | Some v \<Rightarrow> v)"
| "dict_get_default _ k d = Inl AttributeError"

definition dict_get :: "json \<Rightarrow> string \<Rightarrow> exc + json" where
  "dict_get j k = dict_get_default j k JNull"

section \<open>Configuration, requests, responses and effects\<close>

text \<open>The module-level settings read from the environment (lines 23 to 32).\<close>

record config =
  FLOWISE_API_URL :: string
  FLOWISE_API_KEY :: "string option"
  GMAIL_USER :: "string option"
  GMAIL_PASS :: "string option"

definition ALLOWED_EXT :: "string set" where
  "ALLOWED_EXT = {''png'', ''jpg'', ''jpeg'', ''gif'', ''bmp'', ''webp''}"

text \<open>An uploaded file part (werkzeug's \<^verbatim>\<open>FileStorage\<close>) and the form of an \<^verbatim>\<open>/ask\<close> request.\<close>

record file_storage =
  filename :: string
  mimetype :: string
  content :: string

record ask_request =
  question :: "string option"
  image :: "file_storage option"

text \<open>
  What the handler reads of the backend's reply: the status, the body text, and the result
  of \<^verbatim>\<open>resp.json()\<close> (\<open>None\<close> when it raises \<^verbatim>\<open>ValueError\<close>).
\<close>

record response =
  status_code :: int
  resp_text :: string
  resp_json :: "json option"

text \<open>The message built by \<^verbatim>\<open>MIMEText\<close> and the header assignments of lines 144 to 147.\<close>

record email_msg =
  payload :: string
  headers :: "(string \<times> json) list"

text \<open>What a handler returns to Flask: \<^verbatim>\<open>jsonify(body), status\<close>.\<close>

record http_response =
  status :: int
  body :: json

text \<open>The effects of a handler on the outside, in the order they happen.\<close>

datatype effect =
    LogError string
  | LogException string
  | FileSave string string
  | HttpPost string json "(string \<times> string) list"
  | SmtpSession string string json email_msg

text \<open>
  The outside of the program: the token \<^verbatim>\<open>uuid.uuid4()\<close> draws for this request, the
  library functions of the upload path, the file system (saving the upload and reading it
  back, which may raise), the prediction backend behind \<^verbatim>\<open>requests.post\<close> (\<open>Inl\<close> is the
  text of a \<^verbatim>\<open>RequestException\<close>), the construction of the mail text, and the SMTP session
  (\<open>Some\<close> is the text of the exception raised inside the \<^verbatim>\<open>try\<close> block).
\<close>

record world =
  uuid4 :: string
  secure_filename :: "string \<Rightarrow> string"
  save_and_read :: "string \<Rightarrow> string \<Rightarrow> exc + string"
  guess_type :: "string \<Rightarrow> string option"
  b64encode :: "string \<Rightarrow> string"
  requests_post :: "string \<Rightarrow> json \<Rightarrow> (string \<times> string) list \<Rightarrow> string + response"
  MIMEText :: "json \<Rightarrow> exc + email_msg"
  smtp_session :: "string \<Rightarrow> string \<Rightarrow> json \<Rightarrow> email_msg \<Rightarrow> string option"

section \<open>allowed\_file\<close>

text \<open>
  \<^verbatim>\<open>str.lower\<close> on one character. Only the letters A to Z are mapped: no other character
  lowers to a letter that occurs in \<open>ALLOWED_EXT\<close>, so membership of the lowered
  extension in that set is the same.
\<close>

definition lower_char :: "char \<Rightarrow> char" where
  "lower_char c =
     (case map_of (zip ''ABCDEFGHIJKLMNOPQRSTUVWXYZ'' ''abcdefghijklmnopqrstuvwxyz'') c of
        None \<Rightarrow> c
      | Some l \<Rightarrow> l)"

definition lower :: "string \<Rightarrow> string" where
  "lower s = map lower_char s"

text \<open>\<^verbatim>\<open>s.rsplit(sep, 1)\<close>: split once, at the last separator; one piece when there is none.\<close>

definition rsplit1 :: "string \<Rightarrow> char \<Rightarrow> string list" where
  "rsplit1 s sep =
     (if sep \<in> set s
      then (let tl_rev = takeWhile (\<lambda>c. c \<noteq> sep) (rev s)
            in [rev (drop (Suc (length tl_rev)) (rev s)), rev tl_rev])
      else [s])"

text \<open>Line 37. The index 1 is read only when the name holds a dot, so it exists.\<close>

definition allowed_file :: "string \<Rightarrow> bool" where
  "allowed_file name =
     (CHR ''.'' \<in> set name \<and> lower (rsplit1 name (CHR ''.'') ! 1) \<in> ALLOWED_EXT)"

section \<open>The /ask handler\<close>

definition error_body :: "string \<Rightarrow> json" where
  "error_body msg = JObj [(''error'', JStr msg)]"

text \<open>Line 116: \<^verbatim>\<open>flowise_data.get("text") or flowise_data.get("answer") or flowise_data\<close>.\<close>

definition normalise :: "json \<Rightarrow> exc + json" where
  "normalise flowise_data =
     (case dict_get flowise_data ''text'' of
        Inl e \<Rightarrow> Inl e
      | Inr t \<Rightarrow>
          if truthy t then Inr t
          else (case dict_get flowise_data ''answer'' of
                  Inl e \<Rightarrow> Inl e
                | Inr a \<Rightarrow> if truthy a then Inr a else Inr flowise_data))"

text \<open>
  Lines 63 to 87: the list \<^verbatim>\<open>uploads\<close>. \<open>Inl\<close> is an early exit of the handler (a returned
  response or a fault), \<open>Inr\<close> the uploads to send. A \<^verbatim>\<open>FileStorage\<close> is true exactly when its
  file name is non-empty.
\<close>

definition encode_upload ::
  "world \<Rightarrow> file_storage option \<Rightarrow> ((exc + http_response) + json list) \<times> effect list" where
  "encode_upload w file =
     (case file of
        None \<Rightarrow> (Inr [], [])
      | Some f \<Rightarrow>
          if filename f = [] then (Inr [], [])
          else if \<not> allowed_file (filename f)
          then (Inl (Inr \<lparr>status = 400, body = error_body ''file type not allowed''\<rparr>), [])
          else
            (let name = secure_filename w (filename f);
                 filepath = ''uploads/'' @ name
             in case save_and_read w filepath (content f) of
                  Inl e \<Rightarrow> (Inl (Inl e), [FileSave filepath (content f)])
                | Inr raw \<Rightarrow>
                    (let mime =
                           (if mimetype f \<noteq> [] then mimetype f
                            else if str_truthy (guess_type w name) then the (guess_type w name)
                            else ''application/octet-stream'');
                         b64 = b64encode w raw;
                         data_uri = ''data:'' @ mime @ '';base64,'' @ b64
                     in (Inr [JObj [(''type'', JStr ''file''), (''name'', JStr name),
                                    (''data'', JStr data_uri), (''mime'', JStr mime)]],
                         [FileSave filepath (content f)]))))"

text \<open>Lines 90 to 100: the payload and the headers of the outbound call.\<close>

definition build_payload :: "world \<Rightarrow> string \<Rightarrow> json list \<Rightarrow> json" where
  "build_payload w q uploads =
     JObj [(''question'', JStr q), (''uploads'', JArr uploads),
           (''overrideConfig'', JObj [(''sessionId'', JStr (uuid4 w))])]"

definition build_headers :: "config \<Rightarrow> (string \<times> string) list" where
  "build_headers cfg =
     [(''Content-Type'', ''application/json'')] @
     (if str_truthy (FLOWISE_API_KEY cfg)
      then [(''Authorization'', ''Bearer '' @ the (FLOWISE_API_KEY cfg))] else [])"

text \<open>Lines 108 to 122: what the handler makes of a reply of the backend.\<close>

definition reply :: "response \<Rightarrow> (exc + http_response) \<times> effect list" where
  "reply resp =
     (case resp_json resp of
        None \<Rightarrow>
          (Inr \<lparr>status = 500,
                body = JObj [(''error'', JStr ''invalid response from flowise''),
                             (''raw'', JStr (resp_text resp))]\<rparr>,
           [LogError (''Non-JSON response from Flowise: '' @ take 500 (resp_text resp))])
      | Some flowise_data \<Rightarrow>
          (case normalise flowise_data of
             Inl e \<Rightarrow> (Inl e, [])
           | Inr answer \<Rightarrow>
               (Inr \<lparr>status = (if status_code resp < 400 then status_code resp else 200),
                     body = JObj [(''success'', JBool True), (''answer'', answer),
                                  (''raw'', flowise_data)]\<rparr>,
                [])))"

text \<open>Lines 90 to 122: one call to the backend; a transport failure is answered with 502.\<close>

definition forward ::
  "config \<Rightarrow> world \<Rightarrow> string \<Rightarrow> json list \<Rightarrow> (exc + http_response) \<times> effect list" where
  "forward cfg w q uploads =
     (let payload = build_payload w q uploads;
          hdrs = build_headers cfg;
          call = HttpPost (FLOWISE_API_URL cfg) payload hdrs
      in case requests_post w (FLOWISE_API_URL cfg) payload hdrs of
           Inl e \<Rightarrow>
             (Inr \<lparr>status = 502,
                   body = JObj [(''error'', JStr ''failed to reach Flowise''), (''detail'', JStr e)]\<rparr>,
              [call, LogException ''Failed to call Flowise prediction endpoint''])
         | Inr resp \<Rightarrow> (fst (reply resp), call # snd (reply resp)))"

text \<open>Lines 57 to 122.\<close>

definition ask_bot :: "config \<Rightarrow> world \<Rightarrow> ask_request \<Rightarrow> (exc + http_response) \<times> effect list" where
  "ask_bot cfg w req =
     (if \<not> str_truthy (question req)
      then (Inr \<lparr>status = 400, body = error_body ''question field is required''\<rparr>, [])
      else
        (case encode_upload w (image req) of
           (Inl early, tr) \<Rightarrow> (early, tr)
         | (Inr uploads, tr) \<Rightarrow>
             (case forward cfg w (the (question req)) uploads of
                (r, tr') \<Rightarrow> (r, tr @ tr'))))"

section \<open>The /send\_itinerary handler\<close>

text \<open>
  Lines 131 to 156. The argument is the result of \<^verbatim>\<open>request.get_json(force=True, silent=True)\<close>:
  \<open>None\<close> when the body is absent or does not parse.
\<close>

definition send_itinerary ::
  "config \<Rightarrow> world \<Rightarrow> json option \<Rightarrow> (exc + http_response) \<times> effect list" where
  "send_itinerary cfg w parsed =
     (let data = (case parsed of
                    None \<Rightarrow> JObj []
                  | Some j \<Rightarrow> if truthy j then j else JObj [])
      in case dict_get data ''email'' of
           Inl e \<Rightarrow> (Inl e, [])
         | Inr recipient \<Rightarrow>
         (case dict_get_default data ''itinerary'' (JStr '''') of
           Inl e \<Rightarrow> (Inl e, [])
         | Inr itinerary \<Rightarrow>
         (case dict_get_default data ''subject'' (JStr ''Travel Guide Bot: Landmark Details'') of
           Inl e \<Rightarrow> (Inl e, [])
         | Inr subject \<Rightarrow>
             if \<not> truthy recipient
             then (Inr \<lparr>status = 400, body = error_body ''email is required''\<rparr>, [])
             else if \<not> str_truthy (GMAIL_USER cfg) \<or> \<not> str_truthy (GMAIL_PASS cfg)
             then (Inr \<lparr>status = 500, body = error_body ''email credentials not configured''\<rparr>,
                   [LogError ''Email credentials not configured on server environment''])
             else
               (case MIMEText w itinerary of
                  Inl e \<Rightarrow> (Inl e, [])
                | Inr m \<Rightarrow>
                    (let user = the (GMAIL_USER cfg);
                         pass = the (GMAIL_PASS cfg);
                         msg = m\<lparr>headers := headers m @
                                   [(''Subject'', subject), (''From'', JStr user), (''To'', recipient)]\<rparr>
                     in case smtp_session w user pass recipient msg of
                          None \<Rightarrow>
                            (Inr \<lparr>status = 200,
                                  body = JObj [(''success'', JBool True),
                                               (''status'', JStr ''Email sent'')]\<rparr>,
                             [SmtpSession user pass recipient msg])
                        | Some e \<Rightarrow>
                            (Inr \<lparr>status = 500,
                                  body = JObj [(''error'', JStr ''failed to send email''),
                                               (''detail'', JStr e)]\<rparr>,
                             [SmtpSession user pass recipient msg,
                              LogException ''Failed to send itinerary email'']))))))"

text \<open>Lines 163 and 164.\<close>

definition health :: "http_response" where
  "health = \<lparr>status = 200, body = JObj [(''status'', JStr ''ok'')]\<rparr>"

section \<open>Reading a response, and the fallback rule in the spec's words\<close>

text \<open>The \<open>answer\<close> field of the JSON body a handler returned, when there is one.\<close>

definition answer_of :: "(exc + http_response) \<Rightarrow> json option" where
  "answer_of r =
     (case r of
        Inl e \<Rightarrow> None
      | Inr resp \<Rightarrow> (case body resp of JObj kvs \<Rightarrow> map_of kvs ''answer'' | _ \<Rightarrow> None))"

text \<open>
  The ordered fallback as the specification describes it, an ordered list of fields tried
  in sequence, with "present" read as "present with a true value": the first true value
  among the fields \<open>text\<close> and \<open>answer\<close>, and the whole object when there is none.
\<close>

definition ordered_fallback :: "(string \<times> json) list \<Rightarrow> json" where
  "ordered_fallback kvs =
     (case filter truthy (List.map_filter (map_of kvs) [''text'', ''answer'']) of
        [] \<Rightarrow> JObj kvs
      | v # _ \<Rightarrow> v)"

section \<open>Concrete inputs\<close>

text \<open>
  The configuration of a process started with none of the environment variables set, and a
  world whose backend answers every call with the given outcome. Its library functions are
  stand-ins: the file system returns what was saved, no type is guessed, and the encoder and
  the file-name sanitiser return their argument.
\<close>

definition default_config :: config where
  "default_config =
     \<lparr>FLOWISE_API_URL = ''http://localhost:3000/api/v1/prediction/e2b5a8fb-f99c-4818-a338-53e439ff1f79'',
      FLOWISE_API_KEY = None, GMAIL_USER = None, GMAIL_PASS = None\<rparr>"

definition world_with :: "(string + response) \<Rightarrow> world" where
  "world_with outcome =
     \<lparr>uuid4 = ''7d444840-9dc0-11d1-b245-5ffdce74fad2'',
      secure_filename = (\<lambda>name. name),
      save_and_read = (\<lambda>path bytes. Inr bytes),
      guess_type = (\<lambda>name. None),
      b64encode = (\<lambda>bytes. bytes),
      requests_post = (\<lambda>url payload hdrs. outcome),
      MIMEText = (\<lambda>t. case t of JStr s \<Rightarrow> Inr \<lparr>payload = s, headers = []\<rparr> | _ \<Rightarrow> Inl AttributeError),
      smtp_session = (\<lambda>user pass rcpt msg. None)\<rparr>"

text \<open>A request with a question and no image, and one whose image part has an empty name.\<close>

definition ask_text :: ask_request where
  "ask_text = \<lparr>question = Some ''What is this?'', image = None\<rparr>"

definition unnamed_upload :: ask_request where
  "unnamed_upload =
     \<lparr>question = Some ''What is this?'',
      image = Some \<lparr>filename = [], mimetype = ''application/octet-stream'', content = []\<rparr>\<rparr>"

text \<open>A reply whose body decodes to the given value, and a reply of 501 characters that is
  not JSON.\<close>

definition json_reply :: "int \<Rightarrow> json \<Rightarrow> response" where
  "json_reply code j = \<lparr>status_code = code, resp_text = [], resp_json = Some j\<rparr>"

definition long_reply :: response where
  "long_reply = \<lparr>status_code = 200, resp_text = replicate 501 (CHR ''x''), resp_json = None\<rparr>"

section \<open>The outbound call in the trace\<close>

text \<open>
  The upload path never calls the backend, and the only call the handler makes is the one
  of \<open>forward\<close>. So a call in the trace fixes the rest of the run: the response is the
  502 answer when the call raised, and what \<open>reply\<close> makes of the backend's reply otherwise.
\<close>

lemma encode_upload_no_post:
  "encode_upload w file = (x, tr) \<Longrightarrow> HttpPost u p h \<notin> set tr"
  by (auto simp: encode_upload_def Let_def split: option.splits if_splits sum.splits)

lemma forward_post:
  assumes "HttpPost u p h \<in> set (snd (forward cfg w q ups))"
  shows "u = FLOWISE_API_URL cfg \<and> p = build_payload w q ups \<and> h = build_headers cfg"
  using assms
  by (auto simp: forward_def reply_def Let_def split: sum.splits option.splits)

lemma forward_result:
  "fst (forward cfg w q ups) =
     (case requests_post w (FLOWISE_API_URL cfg) (build_payload w q ups) (build_headers cfg) of
        Inl e \<Rightarrow> Inr \<lparr>status = 502,
                   body = JObj [(''error'', JStr ''failed to reach Flowise''), (''detail'', JStr e)]\<rparr>
      | Inr resp \<Rightarrow> fst (reply resp))"
  by (simp add: forward_def Let_def split: sum.splits)

lemma ask_bot_forward:
  assumes "HttpPost u p h \<in> set (snd (ask_bot cfg w req))"
  shows "\<exists>ups tr. ask_bot cfg w req =
             (fst (forward cfg w (the (question req)) ups),
              tr @ snd (forward cfg w (the (question req)) ups)) \<and>
           u = FLOWISE_API_URL cfg \<and> p = build_payload w (the (question req)) ups \<and>
           h = build_headers cfg"
proof -
  from assms have q: "str_truthy (question req)"
    by (auto simp: ask_bot_def split: if_splits)
  obtain x tr where e: "encode_upload w (image req) = (x, tr)"
    by (cases "encode_upload w (image req)")
  from e have np: "HttpPost u p h \<notin> set tr" by (rule encode_upload_no_post)
  show ?thesis
  proof (cases x)
    case (Inl early)
    with assms q e np show ?thesis by (simp add: ask_bot_def)
  next
    case (Inr ups)
    with q e have ab: "ask_bot cfg w req =
        (fst (forward cfg w (the (question req)) ups),
         tr @ snd (forward cfg w (the (question req)) ups))"
      by (simp add: ask_bot_def split: prod.splits)
    with assms np have "HttpPost u p h \<in> set (snd (forward cfg w (the (question req)) ups))"
      by simp
    then have "u = FLOWISE_API_URL cfg \<and> p = build_payload w (the (question req)) ups \<and>
               h = build_headers cfg"
      by (rule forward_post)
    with ab show ?thesis by blast
  qed
qed

lemma ask_bot_post:
  assumes "HttpPost u p h \<in> set (snd (ask_bot cfg w req))"
  shows "fst (ask_bot cfg w req) =
           (case requests_post w u p h of
              Inl e \<Rightarrow> Inr \<lparr>status = 502,
                   body = JObj [(''error'', JStr ''failed to reach Flowise''), (''detail'', JStr e)]\<rparr>
            | Inr resp \<Rightarrow> fst (reply resp))"
  using ask_bot_forward [OF assms] by (auto simp: forward_result)

lemma ask_bot_trace:
  assumes "HttpPost u p h \<in> set (snd (ask_bot cfg w req))"
  shows "\<exists>tr. snd (ask_bot cfg w req) =
           tr @ HttpPost u p h #
             (case requests_post w u p h of
                Inl e \<Rightarrow> [LogException ''Failed to call Flowise prediction endpoint'']
              | Inr resp \<Rightarrow> snd (reply resp))"
proof -
  from ask_bot_forward [OF assms] obtain ups tr where
    ab: "snd (ask_bot cfg w req) = tr @ snd (forward cfg w (the (question req)) ups)" and
    u: "u = FLOWISE_API_URL cfg" and p: "p = build_payload w (the (question req)) ups" and
    h: "h = build_headers cfg"
    by fastforce
  have "snd (forward cfg w (the (question req)) ups) =
          HttpPost u p h #
            (case requests_post w u p h of
               Inl e \<Rightarrow> [LogException ''Failed to call Flowise prediction endpoint'']
             | Inr resp \<Rightarrow> snd (reply resp))"
    unfolding u p h by (simp add: forward_def Let_def split: sum.splits)
  with ab show ?thesis by simp
qed

text \<open>The requests without an upload reach the backend, whatever it answers.\<close>

lemma ask_text_posts:
  "HttpPost (FLOWISE_API_URL default_config)
      (build_payload (world_with outcome) ''What is this?'' []) (build_headers default_config)
     \<in> set (snd (ask_bot default_config (world_with outcome) ask_text))"
  by (simp add: ask_bot_def ask_text_def encode_upload_def forward_def Let_def world_with_def
           split: sum.splits)

lemma world_with_post: "requests_post (world_with outcome) u p h = outcome"
  by (simp add: world_with_def)

section \<open>Normalising the reply\<close>

lemma normalise_obj: "normalise (JObj kvs) = Inr (ordered_fallback kvs)"
  by (auto simp: normalise_def dict_get_def ordered_fallback_def List.map_filter_simps
           split: option.splits)

text \<open>
  C1, as amended. When the backend's body decodes to a JSON object, the \<open>answer\<close> of the
  \<open>/ask\<close> response is the value of \<open>text\<close> if that field is present with a true value,
  otherwise the value of \<open>answer\<close> if that is present with a true value, otherwise the
  whole decoded object. In particular a body \<open>{"text": X}\<close> with a non-empty string
  \<open>X\<close> gives the answer \<open>X\<close>.
\<close>

theorem ask_bot_answer:
  assumes "HttpPost u p h \<in> set (snd (ask_bot cfg w req))"
      and "requests_post w u p h = Inr resp"
      and "resp_json resp = Some (JObj kvs)"
  shows "answer_of (fst (ask_bot cfg w req)) = Some (ordered_fallback kvs) \<and>
         (\<forall>X. X \<noteq> [] \<and> kvs = [(''text'', JStr X)]
            \<longrightarrow> answer_of (fst (ask_bot cfg w req)) = Some (JStr X))"
proof -
  have "answer_of (fst (ask_bot cfg w req)) = Some (ordered_fallback kvs)"
    using ask_bot_post [OF assms(1)] assms(2,3)
    by (simp add: reply_def normalise_obj answer_of_def)
  moreover have "ordered_fallback [(''text'', JStr X)] = JStr X" if "X \<noteq> []" for X
    using that by (simp add: ordered_fallback_def List.map_filter_simps)
  ultimately show ?thesis by auto
qed

theorem ask_bot_answer_witness:
  "answer_of (fst (ask_bot default_config
       (world_with (Inr (json_reply 200 (JObj [(''text'', JStr ''Eiffel Tower'')])))) ask_text)) =
     Some (JStr ''Eiffel Tower'') \<and>
   answer_of (fst (ask_bot default_config
       (world_with (Inr (json_reply 200 (JObj [(''answer'', JStr ''Louvre'')])))) ask_text)) =
     Some (JStr ''Louvre'') \<and>
   answer_of (fst (ask_bot default_config
       (world_with (Inr (json_reply 200 (JObj [(''message'', JStr ''hi'')])))) ask_text)) =
     Some (JObj [(''message'', JStr ''hi'')])"
  using ask_bot_answer [OF ask_text_posts world_with_post,
          of "json_reply 200 (JObj [(''text'', JStr ''Eiffel Tower'')])" "[(''text'', JStr ''Eiffel Tower'')]"]
        ask_bot_answer [OF ask_text_posts world_with_post,
          of "json_reply 200 (JObj [(''answer'', JStr ''Louvre'')])" "[(''answer'', JStr ''Louvre'')]"]
        ask_bot_answer [OF ask_text_posts world_with_post,
          of "json_reply 200 (JObj [(''message'', JStr ''hi'')])" "[(''message'', JStr ''hi'')]"]
  by (simp add: json_reply_def ordered_fallback_def List.map_filter_simps)

text \<open>
  C1 as stated fails. The body \<open>{"text": ""}\<close> has a \<open>text\<close> field, and the answer is
  not its value \<open>""\<close> but the whole object, since \<^verbatim>\<open>or\<close> passes over an empty string.
  And a body that is JSON but not an object, here the string \<open>"pong"\<close>, has no answer at
  all: \<^verbatim>\<open>.get\<close> raises \<^verbatim>\<open>AttributeError\<close>, which the handler does not catch.
\<close>

theorem ask_bot_answer_counterexample:
  "fst (ask_bot default_config (world_with (Inr (json_reply 200 (JObj [(''text'', JStr [])])))) ask_text) =
     Inr \<lparr>status = 200,
          body = JObj [(''success'', JBool True), (''answer'', JObj [(''text'', JStr [])]),
                       (''raw'', JObj [(''text'', JStr [])])]\<rparr> \<and>
   answer_of (fst (ask_bot default_config
       (world_with (Inr (json_reply 200 (JObj [(''text'', JStr [])])))) ask_text)) \<noteq> Some (JStr []) \<and>
   fst (ask_bot default_config (world_with (Inr (json_reply 200 (JStr ''pong'')))) ask_text) =
     Inl AttributeError"
  by (simp add: ask_bot_def ask_text_def encode_upload_def forward_def reply_def normalise_def
        dict_get_def json_reply_def answer_of_def world_with_def Let_def)

section \<open>A reply that is not JSON\<close>

text \<open>
  C2, as amended. When the backend's body does not parse as JSON, \<open>/ask\<close> answers 500 with
  a JSON body that holds an \<open>error\<close> field and, under \<open>raw\<close>, the complete text of the
  backend's body; it is the server's log line that carries the text cut to its first 500
  characters.
\<close>

theorem ask_bot_non_json:
  assumes "HttpPost u p h \<in> set (snd (ask_bot cfg w req))"
      and "requests_post w u p h = Inr resp"
      and "resp_json resp = None"
  shows "fst (ask_bot cfg w req) =
           Inr \<lparr>status = 500,
                body = JObj [(''error'', JStr ''invalid response from flowise''),
                             (''raw'', JStr (resp_text resp))]\<rparr> \<and>
         LogError (''Non-JSON response from Flowise: '' @ take 500 (resp_text resp))
           \<in> set (snd (ask_bot cfg w req))"
proof -
  have "fst (ask_bot cfg w req) = fst (reply resp)"
    using ask_bot_post [OF assms(1)] assms(2) by simp
  moreover obtain tr where "snd (ask_bot cfg w req) = tr @ HttpPost u p h # snd (reply resp)"
    using ask_bot_trace [OF assms(1)] assms(2) by auto
  ultimately show ?thesis using assms(3) by (simp add: reply_def)
qed

theorem ask_bot_non_json_witness:
  "fst (ask_bot default_config (world_with (Inr long_reply)) ask_text) =
     Inr \<lparr>status = 500,
          body = JObj [(''error'', JStr ''invalid response from flowise''),
                       (''raw'', JStr (resp_text long_reply))]\<rparr> \<and>
   LogError (''Non-JSON response from Flowise: '' @ take 500 (resp_text long_reply))
     \<in> set (snd (ask_bot default_config (world_with (Inr long_reply)) ask_text))"
  using ask_bot_non_json [OF ask_text_posts world_with_post, of long_reply]
  by (simp add: long_reply_def)

text \<open>
  C2 as stated fails. For a body of 501 characters that is not JSON, the \<open>raw\<close> field of
  the 500 response is the whole body, which differs from the body cut to 500 characters.
\<close>

theorem ask_bot_non_json_counterexample:
  "fst (ask_bot default_config (world_with (Inr long_reply)) ask_text) =
     Inr \<lparr>status = 500,
          body = JObj [(''error'', JStr ''invalid response from flowise''),
                       (''raw'', JStr (resp_text long_reply))]\<rparr> \<and>
   length (resp_text long_reply) = 501 \<and>
   resp_text long_reply \<noteq> take 500 (resp_text long_reply)"
proof -
  have l: "length (resp_text long_reply) = 501" by (simp add: long_reply_def)
  have "length (take 500 (resp_text long_reply)) = 500" by (simp add: long_reply_def)
  with l have "length (resp_text long_reply) \<noteq> length (take 500 (resp_text long_reply))"
    by simp
  then have "resp_text long_reply \<noteq> take 500 (resp_text long_reply)"
    by metis
  with l show ?thesis
    by (simp add: ask_bot_def ask_text_def encode_upload_def forward_def reply_def
          world_with_def Let_def) (simp add: long_reply_def)
qed

section \<open>The outward status\<close>

text \<open>
  C3. The claim is that for every reply whose body parses as JSON the \<open>/ask\<close> response
  carries the backend's status when that is below 400 and 200 otherwise, with the envelope
  of \<open>success\<close>, \<open>answer\<close> and \<open>raw\<close> as its body. The handler breaks this at a body
  that parses but is not an object. For the reply \<open>[1, 2]\<close> with status 200 the call to
  the backend is made, \<^verbatim>\<open>flowise_data.get\<close> at line 116 raises \<^verbatim>\<open>AttributeError\<close>,
  nothing catches it, and neither the status 200 nor an envelope is returned.
\<close>

theorem ask_bot_non_object_fault:
  "ask_bot default_config (world_with (Inr (json_reply 200 (JArr [JInt 1, JInt 2])))) ask_text =
     (Inl AttributeError,
      [HttpPost ''http://localhost:3000/api/v1/prediction/e2b5a8fb-f99c-4818-a338-53e439ff1f79''
         (JObj [(''question'', JStr ''What is this?''), (''uploads'', JArr []),
                (''overrideConfig'', JObj [(''sessionId'', JStr ''7d444840-9dc0-11d1-b245-5ffdce74fad2'')])])
         [(''Content-Type'', ''application/json'')]])"
  by (simp add: ask_bot_def ask_text_def encode_upload_def forward_def reply_def normalise_def
        dict_get_def json_reply_def world_with_def default_config_def build_payload_def
        build_headers_def Let_def)

text \<open>
  Where the decoded body is an object the handler does what the claim says: the status is
  the backend's below 400 and 200 from 400 on, and the body is the envelope with the decoded
  object under \<open>raw\<close>. The replies 201 and 404 show the two branches.
\<close>

lemma ask_bot_status_on_objects:
  assumes "HttpPost u p h \<in> set (snd (ask_bot cfg w req))"
      and "requests_post w u p h = Inr resp"
      and "resp_json resp = Some (JObj kvs)"
  shows "\<exists>answer. fst (ask_bot cfg w req) =
           Inr \<lparr>status = (if status_code resp < 400 then status_code resp else 200),
                body = JObj [(''success'', JBool True), (''answer'', answer), (''raw'', JObj kvs)]\<rparr>"
  using ask_bot_post [OF assms(1)] assms(2,3)
  by (simp add: reply_def normalise_obj)

lemma ask_bot_status_on_objects_examples:
  "(\<exists>answer. fst (ask_bot default_config
       (world_with (Inr (json_reply 201 (JObj [(''text'', JStr ''ok'')])))) ask_text) =
      Inr \<lparr>status = 201,
           body = JObj [(''success'', JBool True), (''answer'', answer),
                        (''raw'', JObj [(''text'', JStr ''ok'')])]\<rparr>) \<and>
   (\<exists>answer. fst (ask_bot default_config
       (world_with (Inr (json_reply 404 (JObj [(''message'', JStr ''not found'')])))) ask_text) =
      Inr \<lparr>status = 200,
           body = JObj [(''success'', JBool True), (''answer'', answer),
                        (''raw'', JObj [(''message'', JStr ''not found'')])]\<rparr>)"
  using ask_bot_status_on_objects [OF ask_text_posts world_with_post,
          of "json_reply 201 (JObj [(''text'', JStr ''ok'')])" "[(''text'', JStr ''ok'')]"]
        ask_bot_status_on_objects [OF ask_text_posts world_with_post,
          of "json_reply 404 (JObj [(''message'', JStr ''not found'')])" "[(''message'', JStr ''not found'')]"]
  by (simp add: json_reply_def)

section \<open>Validation of the question\<close>

text \<open>
  C4. When the \<open>question\<close> form field is missing or empty, \<open>/ask\<close> answers 400 with an
  \<open>error\<close> field, and the trace of effects is empty: the backend is not called (nothing
  is saved or logged either).
\<close>

theorem ask_bot_question_required:
  assumes "question req = None \<or> question req = Some []"
  shows "ask_bot cfg w req =
           (Inr \<lparr>status = 400, body = JObj [(''error'', JStr ''question field is required'')]\<rparr>, [])"
  using assms by (auto simp: ask_bot_def error_body_def)

theorem ask_bot_question_required_witness:
  "ask_bot default_config (world_with (Inl ''connection refused'')) \<lparr>question = Some [], image = None\<rparr> =
     (Inr \<lparr>status = 400, body = JObj [(''error'', JStr ''question field is required'')]\<rparr>, [])"
  using ask_bot_question_required
          [of "\<lparr>question = Some [], image = None\<rparr>" default_config "world_with (Inl ''connection refused'')"]
  by simp

section \<open>Validation of the file name\<close>

text \<open>\<^verbatim>\<open>rsplit\<close> cuts at the last dot: the second piece is the dot-free end of the name.\<close>

lemma rsplit1_last:
  assumes "s = base @ sep # ext" and "sep \<notin> set ext"
  shows "rsplit1 s sep = [base, ext]"
proof -
  from assms have "takeWhile (\<lambda>c. c \<noteq> sep) (rev s) = rev ext"
    by (auto simp: takeWhile_tail)
  with assms show ?thesis
    by (simp add: rsplit1_def Let_def)
qed

lemma not_allowed_file:
  assumes "\<forall>base ext. name = base @ ''.'' @ ext \<and> CHR ''.'' \<notin> set ext \<longrightarrow> lower ext \<notin> ALLOWED_EXT"
  shows "\<not> allowed_file name"
proof
  assume a: "allowed_file name"
  then have "CHR ''.'' \<in> set name" by (simp add: allowed_file_def)
  then obtain base ext where d: "name = base @ CHR ''.'' # ext" "CHR ''.'' \<notin> set ext"
    by (auto dest: split_list_last)
  then have "rsplit1 name (CHR ''.'') = [base, ext]" by (rule rsplit1_last)
  with a have "lower ext \<in> ALLOWED_EXT" by (simp add: allowed_file_def)
  with assms d show False by simp
qed

lemma allowed_file_upper: "allowed_file ''PHOTO.PNG''"
  by (simp add: allowed_file_def rsplit1_def lower_def lower_char_def ALLOWED_EXT_def)

text \<open>
  C5. For a request with a non-empty question and an image part with a non-empty file name:
  when the name has no extension, or its extension (the dot-free text after the last dot)
  lowered is not one of png, jpg, jpeg, gif, bmp, webp, the handler answers 400 with an
  \<open>error\<close> field and has no effect, so the backend is not contacted. The hypothesis
  covers both cases: a name without a dot cannot be written as \<open>base.ext\<close>.
\<close>

theorem ask_bot_file_type:
  assumes "question req = Some q" and "q \<noteq> []"
      and "image req = Some f" and "filename f \<noteq> []"
      and "\<forall>base ext. filename f = base @ ''.'' @ ext \<and> CHR ''.'' \<notin> set ext
             \<longrightarrow> lower ext \<notin> ALLOWED_EXT"
  shows "ask_bot cfg w req =
           (Inr \<lparr>status = 400, body = JObj [(''error'', JStr ''file type not allowed'')]\<rparr>, [])"
proof -
  from assms(5) have "\<not> allowed_file (filename f)" by (rule not_allowed_file)
  with assms(1-4) show ?thesis
    by (simp add: ask_bot_def encode_upload_def error_body_def)
qed

theorem ask_bot_file_type_witness:
  "ask_bot default_config (world_with (Inl ''connection refused''))
       \<lparr>question = Some ''What is this?'',
        image = Some \<lparr>filename = ''notes.txt'', mimetype = ''text/plain'', content = ''abc''\<rparr>\<rparr> =
     (Inr \<lparr>status = 400, body = JObj [(''error'', JStr ''file type not allowed'')]\<rparr>, [])"
proof -
  have "\<forall>base ext. ''notes.txt'' = base @ ''.'' @ ext \<and> CHR ''.'' \<notin> set ext
          \<longrightarrow> lower ext \<notin> ALLOWED_EXT"
  proof (intro allI impI)
    fix base ext
    assume d: "''notes.txt'' = base @ ''.'' @ ext \<and> CHR ''.'' \<notin> set ext"
    then have "rsplit1 ''notes.txt'' (CHR ''.'') = [base, ext]"
      by (intro rsplit1_last) simp_all
    then have "ext = ''txt''" by (simp add: rsplit1_def)
    then show "lower ext \<notin> ALLOWED_EXT"
      by (simp add: lower_def lower_char_def ALLOWED_EXT_def)
  qed
  then show ?thesis
    using ask_bot_file_type
            [of "\<lparr>question = Some ''What is this?'',
                   image = Some \<lparr>filename = ''notes.txt'', mimetype = ''text/plain'', content = ''abc''\<rparr>\<rparr>"
                "''What is this?''"
                "\<lparr>filename = ''notes.txt'', mimetype = ''text/plain'', content = ''abc''\<rparr>"
                default_config "world_with (Inl ''connection refused'')"]
    by simp
qed

section \<open>An unreachable backend\<close>

text \<open>
  C6. When the handler makes its outbound call and the call raises a transport failure,
  \<open>/ask\<close> answers 502 with a JSON body of exactly two fields, \<open>error\<close> and \<open>detail\<close>
  (the text of the failure); there is no \<open>raw\<close> field.
\<close>

theorem ask_bot_unreachable:
  assumes "HttpPost u p h \<in> set (snd (ask_bot cfg w req))"
      and "requests_post w u p h = Inl e"
  shows "fst (ask_bot cfg w req) =
           Inr \<lparr>status = 502,
                body = JObj [(''error'', JStr ''failed to reach Flowise''), (''detail'', JStr e)]\<rparr>"
  using ask_bot_post [OF assms(1)] assms(2) by simp

theorem ask_bot_unreachable_witness:
  "fst (ask_bot default_config (world_with (Inl ''connection refused'')) ask_text) =
     Inr \<lparr>status = 502,
          body = JObj [(''error'', JStr ''failed to reach Flowise''),
                       (''detail'', JStr ''connection refused'')]\<rparr>"
  using ask_bot_unreachable [OF ask_text_posts world_with_post] .

section \<open>The /send\_itinerary validations\<close>

text \<open>
  C7. For a body that is an object with a recipient \<open>email\<close> (a true value), when one of
  \<open>GMAIL_USER\<close> and \<open>GMAIL_PASS\<close> is unset (or empty), the handler answers 500 with
  \<open>{"error": "email credentials not configured"}\<close>; its only effect is the log line, so
  no SMTP session is opened. The recipient is checked first: for an object with no true
  \<open>email\<close> the answer is 400 \<open>{"error": "email is required"}\<close> whatever the credentials.
\<close>

theorem send_itinerary_credentials:
  "(map_of kvs ''email'' = Some r \<and> truthy r \<and>
      (\<not> str_truthy (GMAIL_USER cfg) \<or> \<not> str_truthy (GMAIL_PASS cfg)) \<longrightarrow>
    send_itinerary cfg w (Some (JObj kvs)) =
      (Inr \<lparr>status = 500, body = JObj [(''error'', JStr ''email credentials not configured'')]\<rparr>,
       [LogError ''Email credentials not configured on server environment''])) \<and>
   ((\<forall>v. map_of kvs ''email'' = Some v \<longrightarrow> \<not> truthy v) \<longrightarrow>
    send_itinerary cfg w (Some (JObj kvs)) =
      (Inr \<lparr>status = 400, body = JObj [(''error'', JStr ''email is required'')]\<rparr>, []))"
  by (cases kvs; cases "map_of kvs ''email''")
     (auto simp: send_itinerary_def dict_get_def error_body_def)

theorem send_itinerary_credentials_witness:
  "send_itinerary default_config (world_with (Inl ''connection refused''))
       (Some (JObj [(''email'', JStr ''user@example.com''), (''itinerary'', JStr ''Day 1'')])) =
     (Inr \<lparr>status = 500, body = JObj [(''error'', JStr ''email credentials not configured'')]\<rparr>,
      [LogError ''Email credentials not configured on server environment'']) \<and>
   send_itinerary default_config (world_with (Inl ''connection refused''))
       (Some (JObj [(''itinerary'', JStr ''Day 1'')])) =
     (Inr \<lparr>status = 400, body = JObj [(''error'', JStr ''email is required'')]\<rparr>, [])"
  using send_itinerary_credentials
          [of "[(''email'', JStr ''user@example.com''), (''itinerary'', JStr ''Day 1'')]"
              "JStr ''user@example.com''" default_config "world_with (Inl ''connection refused'')"]
        send_itinerary_credentials
          [of "[(''itinerary'', JStr ''Day 1'')]" JNull default_config
              "world_with (Inl ''connection refused'')"]
  by (simp add: default_config_def)

section \<open>An image part without a name\<close>

text \<open>
  C9. For a request with a non-empty question whose image part has an empty file name, the
  handler does exactly what it does for the same request with no image part: same response,
  same effects. Its first effect is the call to the backend, with \<open>uploads\<close> the empty
  list in the payload (and the drawn token as \<open>sessionId\<close>); nothing is saved before it.
\<close>

theorem ask_bot_empty_filename:
  assumes "question req = Some q" and "q \<noteq> []"
      and "image req = Some f" and "filename f = []"
  shows "ask_bot cfg w req = ask_bot cfg w (req\<lparr>image := None\<rparr>) \<and>
         (\<exists>rest. snd (ask_bot cfg w req) =
            HttpPost (FLOWISE_API_URL cfg)
              (JObj [(''question'', JStr q), (''uploads'', JArr []),
                     (''overrideConfig'', JObj [(''sessionId'', JStr (uuid4 w))])])
              (build_headers cfg) # rest)"
  using assms
  by (simp add: ask_bot_def encode_upload_def forward_def build_payload_def Let_def
           split: sum.splits)

theorem ask_bot_empty_filename_witness:
  "ask_bot default_config (world_with (Inl ''connection refused'')) unnamed_upload =
   ask_bot default_config (world_with (Inl ''connection refused'')) (unnamed_upload\<lparr>image := None\<rparr>) \<and>
   (\<exists>rest. snd (ask_bot default_config (world_with (Inl ''connection refused'')) unnamed_upload) =
      HttpPost (FLOWISE_API_URL default_config)
        (JObj [(''question'', JStr ''What is this?''), (''uploads'', JArr []),
               (''overrideConfig'',
                JObj [(''sessionId'', JStr (uuid4 (world_with (Inl ''connection refused''))))])])
        (build_headers default_config) # rest)"
  by (rule ask_bot_empty_filename
        [where f = "\<lparr>filename = [], mimetype = ''application/octet-stream'', content = []\<rparr>"])
     (simp_all add: unnamed_upload_def)

section \<open>A body that does not parse\<close>

text \<open>
  C10. When the body of a \<open>/send_itinerary\<close> request is absent or does not parse as JSON,
  the handler goes on with an empty object and answers 400 with
  \<open>{"error": "email is required"}\<close>; it does not end in a fault, and it has no effect.
\<close>

theorem send_itinerary_unparseable_body:
  "send_itinerary cfg w None =
     (Inr \<lparr>status = 400, body = JObj [(''error'', JStr ''email is required'')]\<rparr>, [])"
  by (simp add: send_itinerary_def dict_get_def error_body_def)

theorem send_itinerary_unparseable_body_witness:
  "send_itinerary default_config (world_with (Inl ''connection refused'')) None =
     (Inr \<lparr>status = 400, body = JObj [(''error'', JStr ''email is required'')]\<rparr>, [])"
  using send_itinerary_unparseable_body [of default_config "world_with (Inl ''connection refused'')"]
  by simp

end
